theory Spec2Isabelle
  imports Complex_Main "HOL-Library.Char_ord" "HOL-Library.List_Lexorder" "HOL-Library.Sublist"
begin

section \<open>Values, exceptions and effects\<close>

text \<open>
  The service in \<^verbatim>\<open>app/main.py\<close> keeps its job records and its video metadata in Python
  dictionaries with string keys. A dictionary literal is an association list in the order
  the literal is written (its keys are distinct); \<open>PStamp t\<close> stands for the string
  \<^verbatim>\<open>datetime.utcnow().isoformat() + "Z"\<close> of the clock reading \<open>t\<close>, so that two time stamps
  can be compared by their readings.
\<close>

datatype pyval = PNone | PStr string | PInt int | PStamp nat

type_synonym pydict = "(string \<times> pyval) list"

definition dict_get :: "pydict \<Rightarrow> string \<Rightarrow> pyval" where
  \<comment> \<open>\<^verbatim>\<open>d.get(k)\<close>: \<^verbatim>\<open>None\<close> for a missing key.\<close>
  "dict_get d k = (case map_of d k of None \<Rightarrow> PNone | Some v \<Rightarrow> v)"

definition has_key :: "pydict \<Rightarrow> string \<Rightarrow> bool" where
  "has_key d k = (k \<in> set (map fst d))"

text \<open>
  The exceptions that reach the code: \<^verbatim>\<open>HTTPException(status, detail)\<close>, raised by the
  source itself, and the two classes the standard library documents for the calls it makes
  (\<^verbatim>\<open>subprocess\<close>, \<^verbatim>\<open>os.makedirs\<close>, \<^verbatim>\<open>os.listdir\<close>, \<^verbatim>\<open>open\<close>). All three derive from
  \<^verbatim>\<open>Exception\<close>. A library exception carries the variable part of its message:
  \<^verbatim>\<open>str(CalledProcessError)\<close> is \<^verbatim>\<open>Command '<cmd>' returned non-zero exit status <n>.\<close> (or
  \<^verbatim>\<open>Command '<cmd>' died with <signal>.\<close>), and \<^verbatim>\<open>str\<close> of an \<^verbatim>\<open>OSError\<close> raised by the
  operating system is \<^verbatim>\<open>[Errno <n>] <text>\<close>.
\<close>

datatype exn = HTTPException nat string | CalledProcessError string | OSError string

fun dec :: "nat \<Rightarrow> string" where
  "dec n = (if n < 10 then [char_of (48 + n)] else dec (n div 10) @ [char_of (48 + n mod 10)])"

declare dec.simps [simp del]

fun str_exn :: "exn \<Rightarrow> string" where
  \<comment> \<open>\<^verbatim>\<open>str(e)\<close>; for \<^verbatim>\<open>HTTPException\<close> it is Starlette's \<^verbatim>\<open>f"{status_code}: {detail}"\<close>.\<close>
  "str_exn (HTTPException status detail) = dec status @ '': '' @ detail"
| "str_exn (CalledProcessError rest) = ''Command '' @ [CHR 0x27] @ rest"
| "str_exn (OSError rest) = ''[Errno '' @ rest"

text \<open>
  A statement of the program is a function from the state to a result and the next state;
  the result is \<open>Inl e\<close> when the statement raises \<open>e\<close>.
\<close>

type_synonym ('s, 'a) io = "'s \<Rightarrow> (exn + 'a) \<times> 's"

definition ret :: "'a \<Rightarrow> ('s, 'a) io" where
  "ret x s = (Inr x, s)"

definition raise :: "exn \<Rightarrow> ('s, 'a) io" where
  "raise e s = (Inl e, s)"

definition then_do :: "('s, 'a) io \<Rightarrow> ('a \<Rightarrow> ('s, 'b) io) \<Rightarrow> ('s, 'b) io" where
  "then_do m f s = (case m s of (Inl e, s') \<Rightarrow> (Inl e, s') | (Inr x, s') \<Rightarrow> f x s')"

definition try_except :: "('s, 'a) io \<Rightarrow> (exn \<Rightarrow> ('s, 'a) io) \<Rightarrow> ('s, 'a) io" where
  \<comment> \<open>\<^verbatim>\<open>try: m  except Exception as e: h(e)\<close>\<close>
  "try_except m h s = (case m s of (Inl e, s') \<Rightarrow> h e s' | (Inr x, s') \<Rightarrow> (Inr x, s'))"

text \<open>
  Everything outside the process (the subprocesses, the file system, the clock, the JWT
  library) is a parameter: a record of the calls the source makes, each acting on an
  external world \<open>'w\<close> that the program cannot inspect otherwise. Python floats are
  idealised as rationals: \<open>float_of_str\<close> is \<^verbatim>\<open>float(s)\<close> (\<open>None\<close> for \<^verbatim>\<open>ValueError\<close>) and
  \<open>fmt_float\<close> is the formatting \<^verbatim>\<open>f"{x}"\<close>.
\<close>

record 'w sys =
  DATA_DIR :: string
  subprocess_run :: "string list \<Rightarrow> ('w, unit) io"
  check_output :: "string list \<Rightarrow> ('w, string) io"
  check_call :: "string list \<Rightarrow> ('w, unit) io"
  makedirs :: "string \<Rightarrow> ('w, unit) io"
  listdir :: "string \<Rightarrow> ('w, string list) io"
  path_exists :: "string \<Rightarrow> 'w \<Rightarrow> bool \<times> 'w"
  json_load :: "string \<Rightarrow> ('w, pydict) io"
  jwt_decode :: "string \<Rightarrow> 'w \<Rightarrow> pydict option"
  utcnow :: "'w \<Rightarrow> nat \<times> 'w"
  float_of_str :: "string \<Rightarrow> rat option"
  fmt_float :: "rat \<Rightarrow> string"

section \<open>String and path helpers\<close>

definition startswith :: "string \<Rightarrow> string \<Rightarrow> bool" where
  "startswith s p = (take (length p) s = p)"

definition endswith :: "string \<Rightarrow> string \<Rightarrow> bool" where
  "endswith s p = (length p \<le> length s \<and> drop (length s - length p) s = p)"

definition lower_char :: "char \<Rightarrow> char" where
  "lower_char c = (let n = (of_char c :: nat) in if 65 \<le> n \<and> n \<le> 90 then char_of (n + 32) else c)"

definition lower :: "string \<Rightarrow> string" where
  "lower s = map lower_char s"

definition is_space :: "char \<Rightarrow> bool" where
  \<comment> \<open>the ASCII characters \<^verbatim>\<open>str.strip()\<close> removes\<close>
  "is_space c = (let n = (of_char c :: nat) in n = 32 \<or> (9 \<le> n \<and> n \<le> 13) \<or> (28 \<le> n \<and> n \<le> 31))"

definition strip :: "string \<Rightarrow> string" where
  "strip s = rev (dropWhile is_space (rev (dropWhile is_space s)))"

definition path_join :: "string \<Rightarrow> string \<Rightarrow> string" where
  \<comment> \<open>\<^verbatim>\<open>os.path.join(a, b)\<close> on POSIX\<close>
  "path_join a b =
     (if startswith b ''/'' then b
      else if a = [] \<or> endswith a ''/'' then a @ b
      else a @ ''/'' @ b)"

section \<open>The ffmpeg helpers\<close>

definition check_ffmpeg :: "'w sys \<Rightarrow> ('w, unit) io" where
  "check_ffmpeg sys =
     try_except
       (then_do (subprocess_run sys [''ffmpeg'', ''-version'']) (\<lambda>_.
          subprocess_run sys [''ffprobe'', ''-version'']))
       (\<lambda>_. raise (HTTPException 500 ''ffmpeg/ffprobe not found on PATH''))"

definition ffprobe_cmd :: "string \<Rightarrow> string list" where
  "ffprobe_cmd path =
     [''ffprobe'', ''-v'', ''error'',
      ''-show_entries'', ''format=duration'',
      ''-of'', ''default=noprint_wrappers=1:nokey=1'',
      path]"

definition ffprobe_duration :: "'w sys \<Rightarrow> string \<Rightarrow> ('w, rat) io" where
  "ffprobe_duration sys path =
     then_do (check_ffmpeg sys) (\<lambda>_.
     then_do (check_output sys (ffprobe_cmd path)) (\<lambda>out.
       case float_of_str sys (strip out) of
         Some d \<Rightarrow> ret d
       | None \<Rightarrow> raise (HTTPException 400 ''Could not determine video duration'')))"

definition seg_time :: "rat \<Rightarrow> int \<Rightarrow> rat" where
  \<comment> \<open>\<^verbatim>\<open>max(duration / max(parts, 1), 0.1)\<close>\<close>
  "seg_time duration parts = max (duration / of_int (max parts 1)) (1 / 10)"

definition effective_mode :: "string \<Rightarrow> string" where
  \<comment> \<open>\<^verbatim>\<open>if mode not in ("fast", "heavy"): mode = "heavy"\<close>\<close>
  "effective_mode mode = (if mode \<noteq> ''fast'' \<and> mode \<noteq> ''heavy'' then ''heavy'' else mode)"

definition ffmpeg_cmd :: "'w sys \<Rightarrow> string \<Rightarrow> string \<Rightarrow> rat \<Rightarrow> string \<Rightarrow> string list" where
  "ffmpeg_cmd sys in_path out_dir seg mode =
     (if mode = ''fast'' then
        [''ffmpeg'', ''-y'', ''-i'', in_path,
         ''-c'', ''copy'',
         ''-f'', ''segment'',
         ''-segment_time'', fmt_float sys seg,
         ''-reset_timestamps'', ''1'',
         path_join out_dir ''part_%02d.mp4'']
      else
        [''ffmpeg'', ''-y'', ''-i'', in_path,
         ''-vf'', ''scale=1280:-2,unsharp=5:5:1.0'',
         ''-c:v'', ''libx264'', ''-preset'', ''slower'', ''-crf'', ''20'',
         ''-c:a'', ''aac'', ''-b:a'', ''128k'',
         ''-f'', ''segment'',
         ''-segment_time'', fmt_float sys seg,
         ''-reset_timestamps'', ''1'',
         path_join out_dir ''part_%02d.mp4''])"

definition run_ffmpeg :: "'w sys \<Rightarrow> string list \<Rightarrow> ('w, unit) io" where
  \<comment> \<open>\<^verbatim>\<open>try: check_call(cmd)  except CalledProcessError as e: raise HTTPException(500, ...)\<close>;
      any other exception passes through.\<close>
  "run_ffmpeg sys cmd =
     try_except (check_call sys cmd)
       (\<lambda>e. case e of
          CalledProcessError _ \<Rightarrow> raise (HTTPException 500 (''ffmpeg failed: '' @ str_exn e))
        | _ \<Rightarrow> raise e)"

definition segment_files :: "string \<Rightarrow> string list \<Rightarrow> string list" where
  \<comment> \<open>\<^verbatim>\<open>sorted([os.path.join(out_dir, f) for f in names if f.lower().endswith(".mp4")])\<close>\<close>
  "segment_files out_dir names =
     sort (map (path_join out_dir) (filter (\<lambda>f. endswith (lower f) ''.mp4'') names))"

definition split_video :: "'w sys \<Rightarrow> string \<Rightarrow> string \<Rightarrow> int \<Rightarrow> string \<Rightarrow> ('w, string list) io" where
  "split_video sys in_path out_dir parts mode =
     then_do (check_ffmpeg sys) (\<lambda>_.
     then_do (makedirs sys out_dir) (\<lambda>_.
     then_do (ffprobe_duration sys in_path) (\<lambda>duration.
     then_do (run_ffmpeg sys
                (ffmpeg_cmd sys in_path out_dir (seg_time duration parts) (effective_mode mode))) (\<lambda>_.
     then_do (listdir sys out_dir) (\<lambda>names.
       ret (segment_files out_dir names))))))"

section \<open>The job registry\<close>

text \<open>
  \<open>JOBS\<close> is the module's dictionary from video identifier to job record; \<open>ext\<close> is the
  world outside the process. \<open>assigned\<close> is a ghost field, not program state: it lists the
  assignments \<^verbatim>\<open>JOBS[video_id] = record\<close> in the order they were executed, so that the order
  of the writes can be stated. Each assignment runs under \<^verbatim>\<open>JLOCK\<close> and is one atomic step.
\<close>

record 'w state =
  ext :: 'w
  JOBS :: "string \<rightharpoonup> pydict"
  assigned :: "(string \<times> pydict) list"

definition lift_ext :: "('w, 'a) io \<Rightarrow> ('w state, 'a) io" where
  "lift_ext m s = (case m (ext s) of (r, w') \<Rightarrow> (r, s\<lparr>ext := w'\<rparr>))"

definition now :: "'w sys \<Rightarrow> ('w state, nat) io" where
  \<comment> \<open>\<^verbatim>\<open>datetime.utcnow()\<close>\<close>
  "now sys s = (case utcnow sys (ext s) of (t, w') \<Rightarrow> (Inr t, s\<lparr>ext := w'\<rparr>))"

definition jobs_set :: "string \<Rightarrow> pydict \<Rightarrow> ('w state, unit) io" where
  \<comment> \<open>\<^verbatim>\<open>with JLOCK: JOBS[video_id] = record\<close>\<close>
  "jobs_set video_id job s =
     (Inr (), s\<lparr>JOBS := (JOBS s)(video_id \<mapsto> job), assigned := assigned s @ [(video_id, job)]\<rparr>)"

definition jobs_get :: "string \<Rightarrow> ('w state, pydict option) io" where
  \<comment> \<open>\<^verbatim>\<open>with JLOCK: job = JOBS.get(video_id)\<close>\<close>
  "jobs_get video_id s = (Inr (JOBS s video_id), s)"

section \<open>Authentication and authorisation\<close>

definition USERS :: "(string \<times> pydict) list" where
  "USERS =
     [(''admin'', [(''password'', PStr ''admin123''), (''role'', PStr ''admin'')]),
      (''user'', [(''password'', PStr ''user123''), (''role'', PStr ''user'')])]"

definition user_role :: "pyval \<Rightarrow> pyval" where
  \<comment> \<open>\<^verbatim>\<open>USERS.get(user, {}).get("role")\<close>\<close>
  "user_role user =
     (case user of
        PStr u \<Rightarrow> (case map_of USERS u of None \<Rightarrow> PNone | Some d \<Rightarrow> dict_get d ''role'')
      | _ \<Rightarrow> PNone)"

definition decode_bearer :: "'w sys \<Rightarrow> string \<Rightarrow> ('w, pydict) io" where
  "decode_bearer sys authorization =
     (if authorization = [] \<or> \<not> startswith authorization ''Bearer '' then
        raise (HTTPException 401 ''Missing or invalid Authorization header'')
      else (\<lambda>w.
        case jwt_decode sys (drop 7 authorization) w of
          Some claims \<Rightarrow> (Inr claims, w)
        | None \<Rightarrow> (Inl (HTTPException 401 ''Invalid or expired token''), w)))"

definition current_user :: "'w sys \<Rightarrow> string \<Rightarrow> ('w, pyval) io" where
  "current_user sys authorization =
     then_do (decode_bearer sys authorization) (\<lambda>claims. ret (dict_get claims ''sub''))"

definition json_meta_path :: "string \<Rightarrow> string" where
  "json_meta_path video_dir = path_join video_dir ''meta.json''"

definition read_meta :: "'w sys \<Rightarrow> string \<Rightarrow> ('w, pydict option) io" where
  "read_meta sys video_dir w =
     (case path_exists sys (json_meta_path video_dir) w of
        (True, w') \<Rightarrow> then_do (json_load sys (json_meta_path video_dir)) (\<lambda>meta. ret (Some meta)) w'
      | (False, w') \<Rightarrow> (Inr None, w'))"

definition authorize_video_access :: "'w sys \<Rightarrow> string \<Rightarrow> pyval \<Rightarrow> ('w, string \<times> pydict) io" where
  "authorize_video_access sys video_id user =
     then_do (read_meta sys (path_join (DATA_DIR sys) video_id)) (\<lambda>meta.
       case meta of
         None \<Rightarrow> raise (HTTPException 404 ''Video not found'')
       | Some m \<Rightarrow>
           if m = [] then raise (HTTPException 404 ''Video not found'')
           else if user_role user \<noteq> PStr ''admin'' \<and> dict_get m ''owner'' \<noteq> user then
             raise (HTTPException 403 ''Forbidden'')
           else ret (path_join (DATA_DIR sys) video_id, m))"

section \<open>The job runner and the endpoints\<close>

definition run_split_job :: "'w sys \<Rightarrow> string \<Rightarrow> int \<Rightarrow> string \<Rightarrow> ('w state, unit) io" where
  "run_split_job sys video_id parts mode =
     try_except
       (let vdir = path_join (DATA_DIR sys) video_id;
            in_path = path_join vdir ''input.mp4'';
            out_dir = path_join vdir (''segments_'' @ mode)
        in
        then_do (now sys) (\<lambda>t.
        then_do (jobs_set video_id
                   [(''status'', PStr ''processing''), (''mode'', PStr mode),
                    (''started_at'', PStamp t)]) (\<lambda>_.
        then_do (lift_ext (split_video sys in_path out_dir parts mode)) (\<lambda>files.
        then_do (now sys) (\<lambda>t'.
          jobs_set video_id
            [(''status'', PStr ''done''), (''mode'', PStr mode),
             (''parts'', PInt (int (length files))), (''finished_at'', PStamp t')])))))
       (\<lambda>e.
        then_do (now sys) (\<lambda>t.
          jobs_set video_id
            [(''status'', PStr ''error''), (''error'', PStr (str_exn e)),
             (''finished_at'', PStamp t)]))"

text \<open>
  \<^verbatim>\<open>split_async\<close> answers with the response and the task it handed to
  \<^verbatim>\<open>background_tasks.add_task\<close>; the framework runs that task after the response.
\<close>

definition split_async ::
  "'w sys \<Rightarrow> string \<Rightarrow> int \<Rightarrow> string \<Rightarrow> string \<Rightarrow> ('w state, pydict \<times> (string \<times> int \<times> string)) io" where
  "split_async sys video_id parts mode authorization =
     then_do (lift_ext (current_user sys authorization)) (\<lambda>user.
     then_do (lift_ext (authorize_video_access sys video_id user)) (\<lambda>(vdir, _).
     then_do (lift_ext (\<lambda>w. case path_exists sys (path_join vdir ''input.mp4'') w of
                               (b, w') \<Rightarrow> (Inr b, w'))) (\<lambda>found.
       if \<not> found then raise (HTTPException 404 ''Video not found'')
       else
         then_do (now sys) (\<lambda>t.
         then_do (jobs_set video_id
                    [(''status'', PStr ''queued''), (''mode'', PStr mode),
                     (''queued_at'', PStamp t)]) (\<lambda>_.
           ret ([(''job'', PStr video_id), (''status'', PStr ''queued'')],
                (video_id, parts, mode)))))))"


definition job_status :: "'w sys \<Rightarrow> string \<Rightarrow> string \<Rightarrow> ('w state, pydict) io" where
  "job_status sys video_id authorization =
     then_do (lift_ext (current_user sys authorization)) (\<lambda>user.
     then_do (lift_ext (authorize_video_access sys video_id user)) (\<lambda>_.
     then_do (jobs_get video_id) (\<lambda>job.
       case job of
         None \<Rightarrow> ret [(''status'', PStr ''unknown'')]
       | Some j \<Rightarrow> if j = [] then ret [(''status'', PStr ''unknown'')] else ret j)))"

section \<open>An example installation\<close>

text \<open>
  A small world for concrete runs: the external world is just the clock. Video \<open>v1\<close>
  belongs to \<open>user\<close> and lasts 40 seconds; no other video exists. \<open>installed\<close> says whether
  ffmpeg and ffprobe are on the PATH, and ffmpeg succeeds only when it is asked for segments
  of 10 seconds.
\<close>

definition demo_sys :: "bool \<Rightarrow> nat sys" where
  "demo_sys installed =
     \<lparr> DATA_DIR = ''data'',
       subprocess_run = (\<lambda>cmd w.
         (if installed then Inr () else Inl (OSError ''2] No such file or directory''), Suc w)),
       check_output = (\<lambda>cmd w. (Inr (''40.000000'' @ [CHR 0x0A]), Suc w)),
       check_call = (\<lambda>cmd w.
         (if ''10.0'' \<in> set cmd then Inr ()
          else Inl (CalledProcessError ''ffmpeg' returned non-zero exit status 1.''), w + 30)),
       makedirs = (\<lambda>p w. (Inr (), w)),
       listdir = (\<lambda>p w.
         (Inr [''part_01.mp4'', ''part_00.mp4'', ''part_03.mp4'', ''notes.txt'', ''part_02.mp4''], w)),
       path_exists = (\<lambda>p w. (p = ''data/v1/meta.json'' \<or> p = ''data/v1/input.mp4'', w)),
       json_load = (\<lambda>p w. (Inr [(''owner'', PStr ''user''), (''video_id'', PStr ''v1'')], w)),
       jwt_decode = (\<lambda>token w.
         if token = ''tok-user'' then Some [(''sub'', PStr ''user''), (''role'', PStr ''user'')]
         else if token = ''tok-guest'' then Some [(''sub'', PStr ''guest''), (''role'', PStr ''user'')]
         else None),
       utcnow = (\<lambda>w. (w, Suc w)),
       float_of_str = (\<lambda>s. if s = ''40.000000'' then Some 40 else None),
       fmt_float = (\<lambda>x. if x = 10 then ''10.0'' else ''other'') \<rparr>"

definition demo_state :: "nat state" where
  "demo_state = \<lparr> ext = 1000, JOBS = Map.empty, assigned = [] \<rparr>"

definition demo_queued :: "nat state" where
  \<comment> \<open>\<open>demo_state\<close> after \<open>user\<close> has submitted \<open>v1\<close> in mode \<open>fast\<close>\<close>
  "demo_queued =
     \<lparr> ext = 1001,
       JOBS = [''v1'' \<mapsto> [(''status'', PStr ''queued''), (''mode'', PStr ''fast''),
                           (''queued_at'', PStamp 1000)]],
       assigned = [(''v1'', [(''status'', PStr ''queued''), (''mode'', PStr ''fast''),
                            (''queued_at'', PStamp 1000)])] \<rparr>"

section \<open>Records of the job lifecycle\<close>

abbreviation queued_record :: "string \<Rightarrow> nat \<Rightarrow> pydict" where
  "queued_record mode t \<equiv>
     [(''status'', PStr ''queued''), (''mode'', PStr mode), (''queued_at'', PStamp t)]"

abbreviation processing_record :: "string \<Rightarrow> nat \<Rightarrow> pydict" where
  "processing_record mode t \<equiv>
     [(''status'', PStr ''processing''), (''mode'', PStr mode), (''started_at'', PStamp t)]"

abbreviation done_record :: "string \<Rightarrow> nat \<Rightarrow> nat \<Rightarrow> pydict" where
  "done_record mode n t \<equiv>
     [(''status'', PStr ''done''), (''mode'', PStr mode), (''parts'', PInt (int n)),
      (''finished_at'', PStamp t)]"

abbreviation error_record :: "exn \<Rightarrow> nat \<Rightarrow> pydict" where
  "error_record e t \<equiv>
     [(''status'', PStr ''error''), (''error'', PStr (str_exn e)), (''finished_at'', PStamp t)]"

abbreviation job_paths :: "'w sys \<Rightarrow> string \<Rightarrow> string \<Rightarrow> string \<times> string" where
  \<comment> \<open>\<^verbatim>\<open>in_path\<close> and \<^verbatim>\<open>out_dir\<close> of the job runner\<close>
  "job_paths sys video_id mode \<equiv>
     (path_join (path_join (DATA_DIR sys) video_id) ''input.mp4'',
      path_join (path_join (DATA_DIR sys) video_id) (''segments_'' @ mode))"

section \<open>Notions used to state the properties\<close>

text \<open>
  The wall clock may be set back at any moment; \<open>clock_monotone\<close> is the assumption that it
  is not: after any external call the clock reads no less than before it.
\<close>

definition later :: "'w sys \<Rightarrow> 'w \<Rightarrow> 'w \<Rightarrow> bool" where
  "later sys w w' = (fst (utcnow sys w) \<le> fst (utcnow sys w'))"

definition clock_monotone :: "'w sys \<Rightarrow> bool" where
  "clock_monotone sys =
     (\<forall>w. later sys w (snd (utcnow sys w))
        \<and> (\<forall>cmd. later sys w (snd (subprocess_run sys cmd w))
                \<and> later sys w (snd (check_output sys cmd w))
                \<and> later sys w (snd (check_call sys cmd w)))
        \<and> (\<forall>p. later sys w (snd (makedirs sys p w)) \<and> later sys w (snd (listdir sys p w))))"



section \<open>Basic facts\<close>

lemma then_do_ret [simp]: "then_do (ret x) f = f x"
  by (rule ext) (simp add: then_do_def ret_def)

lemma then_do_raise [simp]: "then_do (raise e) f = raise e"
  by (rule ext) (simp add: then_do_def raise_def)

lemma str_exn_nonempty: "str_exn e \<noteq> []"
  by (cases e) simp_all

lemma run_split_job_done:
  assumes "utcnow sys (ext s) = (t0, w0)"
    and "split_video sys (fst (job_paths sys video_id mode)) (snd (job_paths sys video_id mode))
           parts mode w0 = (Inr files, w1)"
    and "utcnow sys w1 = (t1, w2)"
  shows "run_split_job sys video_id parts mode s =
    (Inr (), s\<lparr>ext := w2,
       JOBS := (JOBS s)(video_id \<mapsto> done_record mode (length files) t1),
       assigned := assigned s @
         [(video_id, processing_record mode t0),
          (video_id, done_record mode (length files) t1)]\<rparr>)"
  using assms
  by (simp add: run_split_job_def try_except_def then_do_def now_def jobs_set_def lift_ext_def
      Let_def)

lemma run_split_job_error:
  assumes "utcnow sys (ext s) = (t0, w0)"
    and "split_video sys (fst (job_paths sys video_id mode)) (snd (job_paths sys video_id mode))
           parts mode w0 = (Inl e, w1)"
    and "utcnow sys w1 = (t1, w2)"
  shows "run_split_job sys video_id parts mode s =
    (Inr (), s\<lparr>ext := w2,
       JOBS := (JOBS s)(video_id \<mapsto> error_record e t1),
       assigned := assigned s @
         [(video_id, processing_record mode t0), (video_id, error_record e t1)]\<rparr>)"
  using assms
  by (simp add: run_split_job_def try_except_def then_do_def now_def jobs_set_def lift_ext_def
      Let_def)

text \<open>Every run of the job runner is one of the two above.\<close>

lemma run_split_job_cases:
  obtains (succeeded) t0 w0 files w1 t1 w2 where
      "utcnow sys (ext s) = (t0, w0)"
      "split_video sys (fst (job_paths sys video_id mode)) (snd (job_paths sys video_id mode))
         parts mode w0 = (Inr files, w1)"
      "utcnow sys w1 = (t1, w2)"
    | (failed) t0 w0 e w1 t1 w2 where
      "utcnow sys (ext s) = (t0, w0)"
      "split_video sys (fst (job_paths sys video_id mode)) (snd (job_paths sys video_id mode))
         parts mode w0 = (Inl e, w1)"
      "utcnow sys w1 = (t1, w2)"
proof -
  obtain t0 w0 where a: "utcnow sys (ext s) = (t0, w0)" by (cases "utcnow sys (ext s)")
  obtain r w1 where b:
    "split_video sys (fst (job_paths sys video_id mode)) (snd (job_paths sys video_id mode))
       parts mode w0 = (r, w1)"
    by (cases "split_video sys (fst (job_paths sys video_id mode))
                 (snd (job_paths sys video_id mode)) parts mode w0")
  obtain t1 w2 where c: "utcnow sys w1 = (t1, w2)" by (cases "utcnow sys w1")
  show thesis
  proof (cases r)
    case (Inl e)
    with a b c show thesis using failed [of t0 w0 e w1 t1 w2] by simp
  next
    case (Inr files)
    with a b c show thesis using succeeded [of t0 w0 files w1 t1 w2] by simp
  qed
qed

lemma split_video_lists:
  assumes "split_video sys in_path out_dir parts mode w = (Inr files, w1)"
  shows "\<exists>names w'. listdir sys out_dir w' = (Inr names, w1) \<and> files = segment_files out_dir names"
  using assms
  by (auto simp: split_video_def then_do_def ret_def split: prod.splits sum.splits)

lemma demo_check_ffmpeg: "check_ffmpeg (demo_sys True) w = (Inr (), Suc (Suc w))"
  by (simp add: check_ffmpeg_def demo_sys_def try_except_def then_do_def)

lemma demo_check_ffmpeg_missing:
  "check_ffmpeg (demo_sys False) w =
     (Inl (HTTPException 500 ''ffmpeg/ffprobe not found on PATH''), Suc w)"
  by (simp add: check_ffmpeg_def demo_sys_def try_except_def then_do_def raise_def)

lemma demo_strip: "strip (''40.000000'' @ [CHR 0x0A]) = ''40.000000''"
  by (simp add: strip_def is_space_def)

lemma demo_ffprobe_duration:
  "ffprobe_duration (demo_sys True) p w = (Inr 40, Suc (Suc (Suc w)))"
  unfolding ffprobe_duration_def then_do_def demo_check_ffmpeg
  by (simp add: demo_sys_def ret_def demo_strip [simplified])

lemma demo_segment_files:
  "segment_files ''data/v1/segments_fast''
     [''part_01.mp4'', ''part_00.mp4'', ''part_03.mp4'', ''notes.txt'', ''part_02.mp4''] =
   [''data/v1/segments_fast/part_00.mp4'', ''data/v1/segments_fast/part_01.mp4'',
    ''data/v1/segments_fast/part_02.mp4'', ''data/v1/segments_fast/part_03.mp4'']"
  by code_simp

lemma demo_split_video:
  "split_video (demo_sys True) ''data/v1/input.mp4'' ''data/v1/segments_fast'' 4 ''fast'' w =
     (Inr [''data/v1/segments_fast/part_00.mp4'', ''data/v1/segments_fast/part_01.mp4'',
           ''data/v1/segments_fast/part_02.mp4'', ''data/v1/segments_fast/part_03.mp4''],
      w + 35)"
  unfolding split_video_def then_do_def demo_check_ffmpeg demo_ffprobe_duration
  by (simp add: demo_sys_def ret_def run_ffmpeg_def try_except_def ffmpeg_cmd_def seg_time_def
      effective_mode_def demo_segment_files)

lemma demo_paths:
  "path_join (path_join (DATA_DIR (demo_sys b)) ''v1'') ''input.mp4'' = ''data/v1/input.mp4''"
  "path_join (path_join (DATA_DIR (demo_sys b)) ''v1'') ''segments_fast'' = ''data/v1/segments_fast''"
  "path_join (path_join (DATA_DIR (demo_sys b)) ''v1'') ''meta.json'' = ''data/v1/meta.json''"
  "path_join (path_join (DATA_DIR (demo_sys b)) ''v3'') ''meta.json'' = ''data/v3/meta.json''"
  by (simp_all add: demo_sys_def path_join_def startswith_def endswith_def)



text \<open>
  C6. A mode that is neither \<open>fast\<close> nor \<open>heavy\<close> makes \<open>split_video\<close> do exactly what it
  does for \<open>heavy\<close>, on the same input and output paths: the same external calls with the
  same re-encoding command, hence the same result in every world.
\<close>

theorem unknown_mode_splits_as_heavy:
  assumes "mode \<noteq> ''fast''" and "mode \<noteq> ''heavy''"
  shows "split_video sys in_path out_dir parts mode = split_video sys in_path out_dir parts ''heavy''
         \<and> ffmpeg_cmd sys in_path out_dir seg (effective_mode mode) =
             ffmpeg_cmd sys in_path out_dir seg ''heavy''"
  using assms by (simp add: split_video_def effective_mode_def)

theorem unknown_mode_splits_as_heavy_witness:
  "''turbo'' \<noteq> ''fast'' \<and> ''turbo'' \<noteq> ''heavy''
   \<and> split_video (demo_sys True) ''data/v1/input.mp4'' ''data/v1/segments_turbo'' 4 ''turbo'' 1001 =
       split_video (demo_sys True) ''data/v1/input.mp4'' ''data/v1/segments_turbo'' 4 ''heavy'' 1001
   \<and> effective_mode ''turbo'' = ''heavy''"
proof -
  have a: "''turbo'' \<noteq> ''fast''" and b: "''turbo'' \<noteq> ''heavy''" by simp_all
  from unknown_mode_splits_as_heavy [OF a b, of "demo_sys True"] a b
  show ?thesis by (simp add: effective_mode_def)
qed

section \<open>The clock along a split\<close>

lemma later_refl [simp]: "later sys w w"
  by (simp add: later_def)

lemma later_trans: "later sys w w' \<Longrightarrow> later sys w' w'' \<Longrightarrow> later sys w w''"
  by (simp add: later_def)

lemma then_do_later:
  assumes "\<And>w. later sys w (snd (m w))" and "\<And>x w. later sys w (snd (f x w))"
  shows "later sys w (snd (then_do m f w))"
proof (cases "m w")
  case (Pair r w')
  with assms(1) [of w] have a: "later sys w w'" by simp
  show ?thesis
  proof (cases r)
    case (Inl e)
    with Pair a show ?thesis by (simp add: then_do_def)
  next
    case (Inr x)
    with Pair have "then_do m f w = f x w'" by (simp add: then_do_def)
    with a assms(2) [of w' x] show ?thesis by (auto intro: later_trans)
  qed
qed

lemma try_except_later:
  assumes "\<And>w. later sys w (snd (m w))" and "\<And>e w. later sys w (snd (h e w))"
  shows "later sys w (snd (try_except m h w))"
proof (cases "m w")
  case (Pair r w')
  with assms(1) [of w] have a: "later sys w w'" by simp
  show ?thesis
  proof (cases r)
    case (Inl e)
    with Pair have "try_except m h w = h e w'" by (simp add: try_except_def)
    with a assms(2) [of w' e] show ?thesis by (auto intro: later_trans)
  next
    case (Inr x)
    with Pair a show ?thesis by (simp add: try_except_def)
  qed
qed

lemma ret_later [simp]: "later sys w (snd (ret x w))"
  by (simp add: ret_def)

lemma raise_later [simp]: "later sys w (snd (raise e w))"
  by (simp add: raise_def)

lemma check_ffmpeg_later:
  assumes "clock_monotone sys"
  shows "later sys w (snd (check_ffmpeg sys w))"
  unfolding check_ffmpeg_def
  using assms
  by (intro try_except_later then_do_later) (simp_all add: clock_monotone_def)

lemma ffprobe_duration_later:
  assumes "clock_monotone sys"
  shows "later sys w (snd (ffprobe_duration sys path w))"
  unfolding ffprobe_duration_def
  using assms
  by (intro then_do_later check_ffmpeg_later)
     (simp_all add: clock_monotone_def split: option.splits)

lemma run_ffmpeg_later:
  assumes "clock_monotone sys"
  shows "later sys w (snd (run_ffmpeg sys cmd w))"
  unfolding run_ffmpeg_def
  using assms
  by (intro try_except_later) (simp_all add: clock_monotone_def split: exn.splits)

lemma split_video_later:
  assumes "clock_monotone sys"
  shows "later sys w (snd (split_video sys in_path out_dir parts mode w))"
  unfolding split_video_def
  using assms
  by (intro then_do_later check_ffmpeg_later ffprobe_duration_later run_ffmpeg_later)
     (simp_all add: clock_monotone_def)

lemma started_before_finished:
  assumes "clock_monotone sys"
    and "utcnow sys w = (t0, w0)"
    and "split_video sys in_path out_dir parts mode w0 = (r, w1)"
    and "utcnow sys w1 = (t1, w2)"
  shows "t0 \<le> t1"
proof -
  from assms(1) have "later sys w (snd (utcnow sys w))" by (simp add: clock_monotone_def)
  with assms(2) have "t0 \<le> fst (utcnow sys w0)" by (simp add: later_def)
  moreover from split_video_later [OF assms(1), of w0 in_path out_dir parts mode] assms(3)
  have "fst (utcnow sys w0) \<le> fst (utcnow sys w1)" by (simp add: later_def)
  ultimately show ?thesis using assms(4) by simp
qed

lemma demo_clock_monotone: "clock_monotone (demo_sys b)"
  by (simp add: clock_monotone_def later_def demo_sys_def)

section \<open>The job runner\<close>

lemma dec_500: "dec 500 = ''500''"
  by code_simp

lemma demo_split_video_missing:
  "split_video (demo_sys False) in_path out_dir parts mode w =
     (Inl (HTTPException 500 ''ffmpeg/ffprobe not found on PATH''), Suc w)"
  by (simp add: split_video_def then_do_def demo_check_ffmpeg_missing)

lemma demo_run_ok:
  "run_split_job (demo_sys True) ''v1'' 4 ''fast'' (s :: nat state) =
     (Inr (), s\<lparr>ext := ext s + 37,
        JOBS := (JOBS s)(''v1'' \<mapsto> done_record ''fast'' 4 (ext s + 36)),
        assigned := assigned s @
          [(''v1'', processing_record ''fast'' (ext s)),
           (''v1'', done_record ''fast'' 4 (ext s + 36))]\<rparr>)"
proof -
  have a: "utcnow (demo_sys True) (ext s) = (ext s, Suc (ext s))" by (simp add: demo_sys_def)
  have b: "split_video (demo_sys True) (fst (job_paths (demo_sys True) ''v1'' ''fast''))
             (snd (job_paths (demo_sys True) ''v1'' ''fast'')) 4 ''fast'' (Suc (ext s)) =
           (Inr [''data/v1/segments_fast/part_00.mp4'', ''data/v1/segments_fast/part_01.mp4'',
                 ''data/v1/segments_fast/part_02.mp4'', ''data/v1/segments_fast/part_03.mp4''],
            ext s + 36)"
    using demo_split_video [of "Suc (ext s)"] by (simp add: demo_paths)
  have c: "utcnow (demo_sys True) (ext s + 36) = (ext s + 36, ext s + 37)"
    by (simp add: demo_sys_def)
  from run_split_job_done [OF a b c] show ?thesis by simp
qed

lemma demo_run_missing:
  "run_split_job (demo_sys False) ''v1'' 4 ''fast'' (s :: nat state) =
     (Inr (), s\<lparr>ext := ext s + 3,
        JOBS := (JOBS s)(''v1'' \<mapsto>
          [(''status'', PStr ''error''),
           (''error'', PStr ''500: ffmpeg/ffprobe not found on PATH''),
           (''finished_at'', PStamp (ext s + 2))]),
        assigned := assigned s @
          [(''v1'', processing_record ''fast'' (ext s)),
           (''v1'', [(''status'', PStr ''error''),
                     (''error'', PStr ''500: ffmpeg/ffprobe not found on PATH''),
                     (''finished_at'', PStamp (ext s + 2))])]\<rparr>)"
proof -
  have a: "utcnow (demo_sys False) (ext s) = (ext s, Suc (ext s))" by (simp add: demo_sys_def)
  have b: "split_video (demo_sys False) (fst (job_paths (demo_sys False) ''v1'' ''fast''))
             (snd (job_paths (demo_sys False) ''v1'' ''fast'')) 4 ''fast'' (Suc (ext s)) =
           (Inl (HTTPException 500 ''ffmpeg/ffprobe not found on PATH''), ext s + 2)"
    by (simp add: demo_split_video_missing)
  have c: "utcnow (demo_sys False) (ext s + 2) = (ext s + 2, ext s + 3)"
    by (simp add: demo_sys_def)
  from run_split_job_error [OF a b c] show ?thesis by (simp add: dec_500)
qed

text \<open>
  C7. When the split succeeds, the job runner stores a \<open>done\<close> record whose \<open>parts\<close> is the
  number of files \<open>split_video\<close> returned, and those files are the names that the listing of
  the output directory gave with the extension \<^verbatim>\<open>.mp4\<close> (in any letter case), joined to the
  directory and sorted.
\<close>

theorem done_record_counts_listed_segments:
  assumes "utcnow sys (ext s) = (t0, w0)"
    and "split_video sys (fst (job_paths sys video_id mode)) (snd (job_paths sys video_id mode))
           parts mode w0 = (Inr files, w1)"
    and "utcnow sys w1 = (t1, w2)"
  shows "JOBS (snd (run_split_job sys video_id parts mode s)) video_id =
           Some [(''status'', PStr ''done''), (''mode'', PStr mode),
                 (''parts'', PInt (int (length files))), (''finished_at'', PStamp t1)]
         \<and> (\<exists>names w'.
               listdir sys (snd (job_paths sys video_id mode)) w' = (Inr names, w1)
               \<and> files = sort (map (path_join (snd (job_paths sys video_id mode)))
                                 (filter (\<lambda>f. endswith (lower f) ''.mp4'') names))
               \<and> length files = length (filter (\<lambda>f. endswith (lower f) ''.mp4'') names))
         \<and> sorted files"
proof -
  from run_split_job_done [OF assms]
  have rec: "JOBS (snd (run_split_job sys video_id parts mode s)) video_id =
           Some [(''status'', PStr ''done''), (''mode'', PStr mode),
                 (''parts'', PInt (int (length files))), (''finished_at'', PStamp t1)]"
    by simp
  from split_video_lists [OF assms(2)] obtain names w' where
    l: "listdir sys (snd (job_paths sys video_id mode)) w' = (Inr names, w1)"
    and f: "files = segment_files (snd (job_paths sys video_id mode)) names"
    by blast
  from f have srt: "sorted files" and len:
    "length files = length (filter (\<lambda>f. endswith (lower f) ''.mp4'') names)"
    by (simp_all add: segment_files_def)
  from f have "files = sort (map (path_join (snd (job_paths sys video_id mode)))
                                 (filter (\<lambda>f. endswith (lower f) ''.mp4'') names))"
    by (simp add: segment_files_def)
  with l len have "\<exists>names w'.
               listdir sys (snd (job_paths sys video_id mode)) w' = (Inr names, w1)
               \<and> files = sort (map (path_join (snd (job_paths sys video_id mode)))
                                 (filter (\<lambda>f. endswith (lower f) ''.mp4'') names))
               \<and> length files = length (filter (\<lambda>f. endswith (lower f) ''.mp4'') names)"
    by blast
  with rec srt show ?thesis by blast
qed

theorem done_record_counts_listed_segments_witness:
  "utcnow (demo_sys True) (ext demo_state) = (1000, 1001)
   \<and> split_video (demo_sys True) (fst (job_paths (demo_sys True) ''v1'' ''fast''))
       (snd (job_paths (demo_sys True) ''v1'' ''fast'')) 4 ''fast'' 1001 =
       (Inr [''data/v1/segments_fast/part_00.mp4'', ''data/v1/segments_fast/part_01.mp4'',
             ''data/v1/segments_fast/part_02.mp4'', ''data/v1/segments_fast/part_03.mp4''], 1036)
   \<and> utcnow (demo_sys True) 1036 = (1036, 1037)
   \<and> JOBS (snd (run_split_job (demo_sys True) ''v1'' 4 ''fast'' demo_state)) ''v1'' =
       Some [(''status'', PStr ''done''), (''mode'', PStr ''fast''), (''parts'', PInt 4),
             (''finished_at'', PStamp 1036)]"
proof -
  have a: "utcnow (demo_sys True) (ext demo_state) = (1000, 1001)"
    by (simp add: demo_sys_def demo_state_def)
  have b: "split_video (demo_sys True) (fst (job_paths (demo_sys True) ''v1'' ''fast''))
       (snd (job_paths (demo_sys True) ''v1'' ''fast'')) 4 ''fast'' 1001 =
       (Inr [''data/v1/segments_fast/part_00.mp4'', ''data/v1/segments_fast/part_01.mp4'',
             ''data/v1/segments_fast/part_02.mp4'', ''data/v1/segments_fast/part_03.mp4''], 1036)"
    using demo_split_video [of 1001] by (simp add: demo_paths)
  have c: "utcnow (demo_sys True) 1036 = (1036, 1037)" by (simp add: demo_sys_def)
  from done_record_counts_listed_segments [OF a b c] a b c show ?thesis by simp
qed

text \<open>The three failures the split itself reports, as \<open>split_video\<close> raises them.\<close>

lemma split_video_invoker_missing:
  assumes "fst (check_ffmpeg sys w) \<noteq> Inr ()"
  shows "fst (split_video sys in_path out_dir parts mode w) =
           Inl (HTTPException 500 ''ffmpeg/ffprobe not found on PATH'')"
proof -
  have "\<And>r w'. check_ffmpeg sys w = (r, w') \<Longrightarrow> r \<noteq> Inr () \<Longrightarrow>
          r = Inl (HTTPException 500 ''ffmpeg/ffprobe not found on PATH'')"
    by (auto simp: check_ffmpeg_def try_except_def then_do_def raise_def
        split: prod.splits sum.splits)
  with assms show ?thesis
    by (cases "check_ffmpeg sys w") (auto simp: split_video_def then_do_def)
qed

lemma ffprobe_duration_undeterminable:
  assumes "check_ffmpeg sys w = (Inr (), w1)"
    and "check_output sys (ffprobe_cmd path) w1 = (Inr out, w2)"
    and "float_of_str sys (strip out) = None"
  shows "ffprobe_duration sys path w =
           (Inl (HTTPException 400 ''Could not determine video duration''), w2)"
  using assms by (simp add: ffprobe_duration_def then_do_def raise_def)

lemma run_ffmpeg_invocation_failed:
  assumes "check_call sys cmd w = (Inl (CalledProcessError msg), w1)"
  shows "run_ffmpeg sys cmd w =
           (Inl (HTTPException 500 (''ffmpeg failed: '' @ str_exn (CalledProcessError msg))), w1)"
  using assms by (simp add: run_ffmpeg_def try_except_def raise_def)

text \<open>
  C2. Whatever the identifier, the part count and the mode, and whatever the external calls
  do, the job runner returns normally: an exception of the split is caught and stored as an
  \<open>error\<close> record. The record it leaves for the identifier is therefore always \<open>done\<close> or
  \<open>error\<close>, never \<open>processing\<close>. (External calls are taken to return; a subprocess that
  never ends is outside this model.)
\<close>

theorem run_split_job_never_raises:
  "fst (run_split_job sys video_id parts mode s) = Inr ()
   \<and> (\<exists>T. JOBS (snd (run_split_job sys video_id parts mode s)) video_id = Some T
          \<and> (dict_get T ''status'' = PStr ''done'' \<or> dict_get T ''status'' = PStr ''error''))
   \<and> (\<forall>t0 w0 e w1.
          utcnow sys (ext s) = (t0, w0)
          \<and> split_video sys (fst (job_paths sys video_id mode)) (snd (job_paths sys video_id mode))
                parts mode w0 = (Inl e, w1)
          \<longrightarrow> JOBS (snd (run_split_job sys video_id parts mode s)) video_id =
                Some [(''status'', PStr ''error''), (''error'', PStr (str_exn e)),
                      (''finished_at'', PStamp (fst (utcnow sys w1)))])"
proof (cases rule: run_split_job_cases [of sys s video_id mode parts])
  case (succeeded t0 w0 files w1 t1 w2)
  from run_split_job_done [OF succeeded] succeeded show ?thesis
    by (simp add: dict_get_def)
next
  case (failed t0 w0 e w1 t1 w2)
  from run_split_job_error [OF failed] failed show ?thesis
    by (simp add: dict_get_def)
qed

theorem run_split_job_never_raises_witness:
  "fst (run_split_job (demo_sys False) ''v1'' 4 ''fast'' demo_state) = Inr ()
   \<and> utcnow (demo_sys False) (ext demo_state) = (1000, 1001)
   \<and> split_video (demo_sys False) (fst (job_paths (demo_sys False) ''v1'' ''fast''))
        (snd (job_paths (demo_sys False) ''v1'' ''fast'')) 4 ''fast'' 1001 =
        (Inl (HTTPException 500 ''ffmpeg/ffprobe not found on PATH''), 1002)
   \<and> JOBS (snd (run_split_job (demo_sys False) ''v1'' 4 ''fast'' demo_state)) ''v1'' =
        Some [(''status'', PStr ''error''),
              (''error'', PStr ''500: ffmpeg/ffprobe not found on PATH''),
              (''finished_at'', PStamp 1002)]"
proof -
  have a: "utcnow (demo_sys False) (ext demo_state) = (1000, 1001)"
    by (simp add: demo_sys_def demo_state_def)
  have b: "split_video (demo_sys False) (fst (job_paths (demo_sys False) ''v1'' ''fast''))
        (snd (job_paths (demo_sys False) ''v1'' ''fast'')) 4 ''fast'' 1001 =
        (Inl (HTTPException 500 ''ffmpeg/ffprobe not found on PATH''), 1002)"
    by (simp add: demo_split_video_missing)
  have c: "fst (utcnow (demo_sys False) 1002) = 1002" by (simp add: demo_sys_def)
  from run_split_job_never_raises [of "demo_sys False" "''v1''" 4 "''fast''" demo_state] a b c
  show ?thesis by (simp add: dec_500)
qed

text \<open>
  C9. Each transition of the job runner assigns a whole new record to the identifier. The
  \<open>processing\<close> record has exactly the keys status, mode and started_at; the terminal record
  is either a \<open>done\<close> record with exactly status, mode, parts and finished_at, or an \<open>error\<close>
  record with exactly status, error and finished_at. Whatever was stored before (the
  \<open>queued\<close> record with its queued_at, the \<open>processing\<close> record with its started_at) is
  gone: the terminal record has neither key, and an \<open>error\<close> record has no mode.
\<close>

theorem transitions_replace_whole_record:
  "\<exists>t0 T. assigned (snd (run_split_job sys video_id parts mode s)) =
             assigned s @ [(video_id, [(''status'', PStr ''processing''), (''mode'', PStr mode),
                                       (''started_at'', PStamp t0)]),
                           (video_id, T)]
     \<and> JOBS (snd (run_split_job sys video_id parts mode s)) = (JOBS s)(video_id \<mapsto> T)
     \<and> ((\<exists>n t1. T = [(''status'', PStr ''done''), (''mode'', PStr mode), (''parts'', PInt n),
                      (''finished_at'', PStamp t1)])
        \<or> (\<exists>msg t1. T = [(''status'', PStr ''error''), (''error'', PStr msg),
                          (''finished_at'', PStamp t1)]
              \<and> \<not> has_key T ''mode''))
     \<and> \<not> has_key T ''queued_at'' \<and> \<not> has_key T ''started_at''"
proof (cases rule: run_split_job_cases [of sys s video_id mode parts])
  case (succeeded t0 w0 files w1 t1 w2)
  from run_split_job_done [OF succeeded] show ?thesis
    by (simp add: has_key_def)
next
  case (failed t0 w0 e w1 t1 w2)
  from run_split_job_error [OF failed] show ?thesis
    by (simp add: has_key_def)
qed

text \<open>
  C1, as it stands, fails: with ffmpeg missing the split fails, and the terminal record
  the job runner stores has no \<open>started_at\<close>.
\<close>

theorem error_record_has_no_started_at:
  "fst (split_video (demo_sys False) ''data/v1/input.mp4'' ''data/v1/segments_fast'' 4 ''fast'' 1001)
     = Inl (HTTPException 500 ''ffmpeg/ffprobe not found on PATH'')
   \<and> JOBS (snd (run_split_job (demo_sys False) ''v1'' 4 ''fast'' demo_state)) ''v1'' =
        Some [(''status'', PStr ''error''),
              (''error'', PStr ''500: ffmpeg/ffprobe not found on PATH''),
              (''finished_at'', PStamp 1002)]
   \<and> \<not> has_key [(''status'', PStr ''error''),
                 (''error'', PStr ''500: ffmpeg/ffprobe not found on PATH''),
                 (''finished_at'', PStamp 1002)] ''started_at''"
  by (simp add: demo_split_video_missing demo_run_missing demo_state_def has_key_def)

text \<open>
  C1, amended. When the split fails with exception \<open>e\<close>, the terminal record the job runner
  stores has status \<open>error\<close>, the non-empty message \<open>str(e)\<close> and a \<open>finished_at\<close>, and
  nothing else: \<open>started_at\<close> is only in the \<open>processing\<close> record that was assigned before and
  is now replaced. If the clock is not set back during the job, that \<open>started_at\<close> is not
  later than the \<open>finished_at\<close>.
\<close>

theorem failed_job_error_record:
  assumes "utcnow sys (ext s) = (t0, w0)"
    and "split_video sys (fst (job_paths sys video_id mode)) (snd (job_paths sys video_id mode))
           parts mode w0 = (Inl e, w1)"
    and "utcnow sys w1 = (t1, w2)"
  shows "\<exists>s' T. run_split_job sys video_id parts mode s = (Inr (), s')
         \<and> JOBS s' video_id = Some T
         \<and> T = [(''status'', PStr ''error''), (''error'', PStr (str_exn e)),
                 (''finished_at'', PStamp t1)]
         \<and> dict_get T ''status'' = PStr ''error''
         \<and> dict_get T ''error'' = PStr (str_exn e) \<and> str_exn e \<noteq> []
         \<and> dict_get T ''finished_at'' = PStamp t1
         \<and> \<not> has_key T ''started_at''
         \<and> assigned s' = assigned s @
              [(video_id, [(''status'', PStr ''processing''), (''mode'', PStr mode),
                           (''started_at'', PStamp t0)]),
               (video_id, T)]
         \<and> (clock_monotone sys \<longrightarrow> t0 \<le> t1)"
proof -
  have "clock_monotone sys \<longrightarrow> t0 \<le> t1"
    using started_before_finished [OF _ assms] by blast
  with run_split_job_error [OF assms] show ?thesis
    by (simp add: dict_get_def has_key_def str_exn_nonempty)
qed

theorem failed_job_error_record_witness:
  "utcnow (demo_sys False) (ext demo_state) = (1000, 1001)
   \<and> split_video (demo_sys False) (fst (job_paths (demo_sys False) ''v1'' ''fast''))
        (snd (job_paths (demo_sys False) ''v1'' ''fast'')) 4 ''fast'' 1001 =
        (Inl (HTTPException 500 ''ffmpeg/ffprobe not found on PATH''), 1002)
   \<and> utcnow (demo_sys False) 1002 = (1002, 1003)
   \<and> clock_monotone (demo_sys False)
   \<and> fst (run_split_job (demo_sys False) ''v1'' 4 ''fast'' demo_state) = Inr ()
   \<and> JOBS (snd (run_split_job (demo_sys False) ''v1'' 4 ''fast'' demo_state)) ''v1'' =
        Some [(''status'', PStr ''error''),
              (''error'', PStr ''500: ffmpeg/ffprobe not found on PATH''),
              (''finished_at'', PStamp 1002)]
   \<and> assigned (snd (run_split_job (demo_sys False) ''v1'' 4 ''fast'' demo_state)) =
        [(''v1'', [(''status'', PStr ''processing''), (''mode'', PStr ''fast''),
                   (''started_at'', PStamp 1000)]),
         (''v1'', [(''status'', PStr ''error''),
                   (''error'', PStr ''500: ffmpeg/ffprobe not found on PATH''),
                   (''finished_at'', PStamp 1002)])]
   \<and> ''500: ffmpeg/ffprobe not found on PATH'' \<noteq> []
   \<and> (1000 :: nat) \<le> 1002"
proof -
  have a: "utcnow (demo_sys False) (ext demo_state) = (1000, 1001)"
    by (simp add: demo_sys_def demo_state_def)
  have b: "split_video (demo_sys False) (fst (job_paths (demo_sys False) ''v1'' ''fast''))
        (snd (job_paths (demo_sys False) ''v1'' ''fast'')) 4 ''fast'' 1001 =
        (Inl (HTTPException 500 ''ffmpeg/ffprobe not found on PATH''), 1002)"
    by (simp add: demo_split_video_missing)
  have c: "utcnow (demo_sys False) 1002 = (1002, 1003)" by (simp add: demo_sys_def)
  have d: "assigned demo_state = []" by (simp add: demo_state_def)
  from failed_job_error_record [OF a b c] a b c d demo_clock_monotone [of False]
  show ?thesis by (auto simp add: dec_500)
qed

section \<open>The endpoints\<close>

lemma lift_ext_eq: "m (ext s) = (r, w') \<Longrightarrow> lift_ext m s = (r, s\<lparr>ext := w'\<rparr>)"
  by (simp add: lift_ext_def)

lemma authorize_not_found:
  assumes "read_meta sys (path_join (DATA_DIR sys) video_id) w = (Inr meta, w')"
    and "meta = None \<or> meta = Some []"
  shows "authorize_video_access sys video_id user w =
           (Inl (HTTPException 404 ''Video not found''), w')"
  using assms by (auto simp: authorize_video_access_def then_do_def raise_def)

lemma authorize_forbidden:
  assumes "read_meta sys (path_join (DATA_DIR sys) video_id) w = (Inr (Some m), w')"
    and "m \<noteq> []" and "user_role user \<noteq> PStr ''admin''" and "dict_get m ''owner'' \<noteq> user"
  shows "authorize_video_access sys video_id user w = (Inl (HTTPException 403 ''Forbidden''), w')"
  using assms by (simp add: authorize_video_access_def then_do_def raise_def)

lemma job_status_rejected:
  assumes "current_user sys authorization (ext s) = (Inr user, w1)"
    and "authorize_video_access sys video_id user w1 = (Inl e, w2)"
  shows "job_status sys video_id authorization s = (Inl e, s\<lparr>ext := w2\<rparr>)"
  using assms by (simp add: job_status_def then_do_def lift_ext_def)


lemma demo_current_user:
  "current_user (demo_sys b) ''Bearer tok-user'' w = (Inr (PStr ''user''), w)"
  "current_user (demo_sys b) ''Bearer tok-guest'' w = (Inr (PStr ''guest''), w)"
  by (simp_all add: current_user_def decode_bearer_def then_do_def ret_def startswith_def
      demo_sys_def dict_get_def)

lemma demo_read_meta:
  "read_meta (demo_sys b) (path_join (DATA_DIR (demo_sys b)) ''v1'') w =
     (Inr (Some [(''owner'', PStr ''user''), (''video_id'', PStr ''v1'')]), w)"
  "read_meta (demo_sys b) (path_join (DATA_DIR (demo_sys b)) ''v3'') w = (Inr None, w)"
  unfolding read_meta_def json_meta_path_def demo_paths
  by (simp_all add: demo_sys_def then_do_def ret_def)

lemma demo_user_role: "user_role (PStr ''user'') = PStr ''user''" "user_role (PStr ''guest'') = PNone"
  by (simp_all add: user_role_def USERS_def dict_get_def)

lemma demo_authorize:
  "authorize_video_access (demo_sys b) ''v1'' (PStr ''user'') w =
     (Inr (''data/v1'', [(''owner'', PStr ''user''), (''video_id'', PStr ''v1'')]), w)"
  unfolding authorize_video_access_def then_do_def demo_read_meta
  by (simp add: ret_def dict_get_def demo_user_role, simp add: demo_sys_def path_join_def
      startswith_def endswith_def)

text \<open>
  C10. \<open>job_status\<close> checks access to the video before it looks at the registry. For an
  authenticated caller, an identifier without metadata (no \<^verbatim>\<open>meta.json\<close>, or an empty one)
  gives \<^verbatim>\<open>HTTPException(404, "Video not found")\<close>, and a caller who is neither the owner nor an
  admin gives \<^verbatim>\<open>HTTPException(403, "Forbidden")\<close>, whatever the registry holds for the
  identifier; \<open>{status: unknown}\<close> is not returned in either case.
\<close>

theorem job_status_checks_access_first:
  assumes "current_user sys authorization (ext s) = (Inr user, w1)"
    and "read_meta sys (path_join (DATA_DIR sys) video_id) w1 = (Inr meta, w2)"
  shows "(meta = None \<or> meta = Some [] \<longrightarrow>
            job_status sys video_id authorization s =
              (Inl (HTTPException 404 ''Video not found''), s\<lparr>ext := w2\<rparr>))
         \<and> (\<forall>m. meta = Some m \<and> m \<noteq> [] \<and> user_role user \<noteq> PStr ''admin''
                   \<and> dict_get m ''owner'' \<noteq> user \<longrightarrow>
            job_status sys video_id authorization s =
              (Inl (HTTPException 403 ''Forbidden''), s\<lparr>ext := w2\<rparr>))"
proof (intro conjI impI allI)
  assume "meta = None \<or> meta = Some []"
  from job_status_rejected [OF assms(1) authorize_not_found [OF assms(2) this]]
  show "job_status sys video_id authorization s =
          (Inl (HTTPException 404 ''Video not found''), s\<lparr>ext := w2\<rparr>)" .
next
  fix m
  assume h: "meta = Some m \<and> m \<noteq> [] \<and> user_role user \<noteq> PStr ''admin''
               \<and> dict_get m ''owner'' \<noteq> user"
  with assms(2) have "read_meta sys (path_join (DATA_DIR sys) video_id) w1 = (Inr (Some m), w2)"
    by simp
  from job_status_rejected [OF assms(1) authorize_forbidden [OF this]] h
  show "job_status sys video_id authorization s =
          (Inl (HTTPException 403 ''Forbidden''), s\<lparr>ext := w2\<rparr>)" by simp
qed

theorem job_status_checks_access_first_witness:
  "current_user (demo_sys True) ''Bearer tok-user'' (ext demo_state) = (Inr (PStr ''user''), 1000)
   \<and> read_meta (demo_sys True) (path_join (DATA_DIR (demo_sys True)) ''v3'') 1000 = (Inr None, 1000)
   \<and> job_status (demo_sys True) ''v3'' ''Bearer tok-user'' demo_state =
       (Inl (HTTPException 404 ''Video not found''), demo_state)
   \<and> current_user (demo_sys True) ''Bearer tok-guest'' (ext demo_state) = (Inr (PStr ''guest''), 1000)
   \<and> read_meta (demo_sys True) (path_join (DATA_DIR (demo_sys True)) ''v1'') 1000 =
       (Inr (Some [(''owner'', PStr ''user''), (''video_id'', PStr ''v1'')]), 1000)
   \<and> user_role (PStr ''guest'') \<noteq> PStr ''admin''
   \<and> job_status (demo_sys True) ''v1'' ''Bearer tok-guest'' demo_state =
       (Inl (HTTPException 403 ''Forbidden''), demo_state)"
proof -
  have e: "ext demo_state = 1000" "demo_state\<lparr>ext := 1000\<rparr> = demo_state"
    by (simp_all add: demo_state_def)
  have a: "current_user (demo_sys True) ''Bearer tok-user'' (ext demo_state) =
             (Inr (PStr ''user''), 1000)"
    by (simp add: demo_current_user e)
  have b: "read_meta (demo_sys True) (path_join (DATA_DIR (demo_sys True)) ''v3'') 1000 =
             (Inr None, 1000)"
    by (simp add: demo_read_meta)
  have c: "current_user (demo_sys True) ''Bearer tok-guest'' (ext demo_state) =
             (Inr (PStr ''guest''), 1000)"
    by (simp add: demo_current_user e)
  have d: "read_meta (demo_sys True) (path_join (DATA_DIR (demo_sys True)) ''v1'') 1000 =
       (Inr (Some [(''owner'', PStr ''user''), (''video_id'', PStr ''v1'')]), 1000)"
    by (simp add: demo_read_meta)
  have r: "user_role (PStr ''guest'') \<noteq> PStr ''admin''" by (simp add: demo_user_role)
  from job_status_checks_access_first [OF a b] job_status_checks_access_first [OF c d]
    a b c d r e
  show ?thesis by (simp add: dict_get_def)
qed




section \<open>Submissions\<close>

lemma split_async_accepted:
  assumes "split_async sys video_id parts mode authorization s = (Inr (resp, task), s1)"
  shows "\<exists>w t w'. utcnow sys w = (t, w')
           \<and> s1 = s\<lparr>ext := w',
                  JOBS := (JOBS s)(video_id \<mapsto> queued_record mode t),
                  assigned := assigned s @ [(video_id, queued_record mode t)]\<rparr>
           \<and> resp = [(''job'', PStr video_id), (''status'', PStr ''queued'')]
           \<and> task = (video_id, parts, mode)"
  using assms
  by (auto simp: split_async_def then_do_def lift_ext_def now_def jobs_set_def ret_def raise_def
      split: prod.splits sum.splits if_splits) blast

lemma demo_split_async:
  "split_async (demo_sys b) ''v1'' parts mode ''Bearer tok-user'' (s :: nat state) =
     (Inr ([(''job'', PStr ''v1''), (''status'', PStr ''queued'')], (''v1'', parts, mode)),
      s\<lparr>ext := Suc (ext s),
        JOBS := (JOBS s)(''v1'' \<mapsto> queued_record mode (ext s)),
        assigned := assigned s @ [(''v1'', queued_record mode (ext s))]\<rparr>)"
proof -
  have p: "path_exists (demo_sys b) (path_join ''data/v1'' ''input.mp4'') w = (True, w)" for w
    by (simp add: demo_sys_def path_join_def startswith_def endswith_def)
  have u: "utcnow (demo_sys b) w = (w, Suc w)" for w
    by (simp add: demo_sys_def)
  show ?thesis
    by (simp add: split_async_def then_do_def lift_ext_def demo_current_user demo_authorize p u
        now_def jobs_set_def ret_def)
qed

lemma demo_split_async_queued:
  "split_async (demo_sys b) ''v1'' 4 ''fast'' ''Bearer tok-user'' demo_state =
     (Inr ([(''job'', PStr ''v1''), (''status'', PStr ''queued'')], (''v1'', 4, ''fast'')),
      demo_queued)"
  by (simp add: demo_split_async demo_state_def demo_queued_def)

text \<open>
  C8. The registry is a dictionary, so it holds one record per identifier. An accepted
  async submission assigns the identifier a fresh \<open>queued\<close> record that depends only on the
  requested mode and the clock: the registry afterwards is the registry before with that one
  entry replaced, whatever it held. After a second submission for the same identifier only the
  second record is left.
\<close>

theorem submission_overwrites_record:
  assumes "split_async sys video_id parts mode authorization s = (Inr r, s1)"
  shows "(\<exists>t. JOBS s1 = (JOBS s)(video_id \<mapsto>
                  [(''status'', PStr ''queued''), (''mode'', PStr mode), (''queued_at'', PStamp t)]))
         \<and> (\<forall>parts' mode' authorization' r' s2.
               split_async sys video_id parts' mode' authorization' s1 = (Inr r', s2) \<longrightarrow>
               (\<exists>t'. JOBS s2 = (JOBS s)(video_id \<mapsto>
                  [(''status'', PStr ''queued''), (''mode'', PStr mode'),
                   (''queued_at'', PStamp t')])))"
proof (intro conjI allI impI)
  obtain resp task where r: "r = (resp, task)" by (cases r)
  from split_async_accepted [OF assms [unfolded r]]
  obtain t where one: "JOBS s1 = (JOBS s)(video_id \<mapsto> queued_record mode t)" by auto
  then show "\<exists>t. JOBS s1 = (JOBS s)(video_id \<mapsto> queued_record mode t)" ..
  fix parts' :: int and mode' authorization' :: string
    and r' :: "pydict \<times> (string \<times> int \<times> string)" and s2 :: "'a state"
  assume two: "split_async sys video_id parts' mode' authorization' s1 = (Inr r', s2)"
  obtain resp' task' where r': "r' = (resp', task')" by (cases r')
  from split_async_accepted [OF two [unfolded r']]
  obtain t' where "JOBS s2 = (JOBS s1)(video_id \<mapsto> queued_record mode' t')" by auto
  with one have "JOBS s2 = (JOBS s)(video_id \<mapsto> queued_record mode' t')" by simp
  then show "\<exists>t'. JOBS s2 = (JOBS s)(video_id \<mapsto> queued_record mode' t')" ..
qed

theorem submission_overwrites_record_witness:
  "split_async (demo_sys True) ''v1'' 4 ''fast'' ''Bearer tok-user'' demo_state =
     (Inr ([(''job'', PStr ''v1''), (''status'', PStr ''queued'')], (''v1'', 4, ''fast'')),
      demo_queued)
   \<and> JOBS demo_queued ''v1'' =
       Some [(''status'', PStr ''queued''), (''mode'', PStr ''fast''), (''queued_at'', PStamp 1000)]
   \<and> fst (split_async (demo_sys True) ''v1'' 2 ''heavy'' ''Bearer tok-user'' demo_queued) =
       Inr ([(''job'', PStr ''v1''), (''status'', PStr ''queued'')], (''v1'', 2, ''heavy''))
   \<and> JOBS (snd (split_async (demo_sys True) ''v1'' 2 ''heavy'' ''Bearer tok-user'' demo_queued)) =
       (JOBS demo_state)(''v1'' \<mapsto>
          [(''status'', PStr ''queued''), (''mode'', PStr ''heavy''), (''queued_at'', PStamp 1001)])"
proof -
  have a: "split_async (demo_sys True) ''v1'' 4 ''fast'' ''Bearer tok-user'' demo_state =
      (Inr ([(''job'', PStr ''v1''), (''status'', PStr ''queued'')], (''v1'', 4, ''fast'')),
       demo_queued)"
    by (rule demo_split_async_queued)
  have e: "ext demo_queued = 1001" by (simp add: demo_queued_def)
  have b: "split_async (demo_sys True) ''v1'' 2 ''heavy'' ''Bearer tok-user'' demo_queued =
      (Inr ([(''job'', PStr ''v1''), (''status'', PStr ''queued'')], (''v1'', 2, ''heavy'')),
       demo_queued\<lparr>ext := 1002,
         JOBS := (JOBS demo_queued)(''v1'' \<mapsto> queued_record ''heavy'' 1001),
         assigned := assigned demo_queued @ [(''v1'', queued_record ''heavy'' 1001)]\<rparr>)"
    by (simp add: demo_split_async e)
  from submission_overwrites_record [OF a] b
  obtain t' where "JOBS (demo_queued\<lparr>ext := 1002,
         JOBS := (JOBS demo_queued)(''v1'' \<mapsto> queued_record ''heavy'' 1001),
         assigned := assigned demo_queued @ [(''v1'', queued_record ''heavy'' 1001)]\<rparr>) =
        (JOBS demo_state)(''v1'' \<mapsto> queued_record ''heavy'' t')"
    by blast
  then have "(JOBS demo_queued)(''v1'' \<mapsto> queued_record ''heavy'' 1001) =
             (JOBS demo_state)(''v1'' \<mapsto> queued_record ''heavy'' 1001)"
    by (simp add: demo_queued_def demo_state_def)
  with a b show ?thesis by (simp add: demo_queued_def)
qed

section \<open>What a poller can see\<close>








theorem transitions_replace_whole_record_witness:
  "JOBS demo_queued ''v1'' =
     Some [(''status'', PStr ''queued''), (''mode'', PStr ''fast''), (''queued_at'', PStamp 1000)]
   \<and> assigned (snd (run_split_job (demo_sys True) ''v1'' 4 ''fast'' demo_queued)) =
       assigned demo_queued @
       [(''v1'', [(''status'', PStr ''processing''), (''mode'', PStr ''fast''),
                  (''started_at'', PStamp 1001)]),
        (''v1'', [(''status'', PStr ''done''), (''mode'', PStr ''fast''), (''parts'', PInt 4),
                  (''finished_at'', PStamp 1037)])]
   \<and> JOBS (snd (run_split_job (demo_sys True) ''v1'' 4 ''fast'' demo_queued)) ''v1'' =
       Some [(''status'', PStr ''done''), (''mode'', PStr ''fast''), (''parts'', PInt 4),
             (''finished_at'', PStamp 1037)]
   \<and> \<not> has_key [(''status'', PStr ''done''), (''mode'', PStr ''fast''), (''parts'', PInt 4),
                 (''finished_at'', PStamp 1037)] ''queued_at''
   \<and> \<not> has_key [(''status'', PStr ''done''), (''mode'', PStr ''fast''), (''parts'', PInt 4),
                 (''finished_at'', PStamp 1037)] ''started_at''"
proof -
  from transitions_replace_whole_record [of "demo_sys True" "''v1''" 4 "''fast''" demo_queued]
  obtain t0 T where
    w: "assigned (snd (run_split_job (demo_sys True) ''v1'' 4 ''fast'' demo_queued)) =
          assigned demo_queued @ [(''v1'', processing_record ''fast'' t0), (''v1'', T)]"
    and j: "JOBS (snd (run_split_job (demo_sys True) ''v1'' 4 ''fast'' demo_queued)) =
          (JOBS demo_queued)(''v1'' \<mapsto> T)"
    and k: "\<not> has_key T ''queued_at''" "\<not> has_key T ''started_at''"
    by blast
  have e: "ext demo_queued = 1001" by (simp add: demo_queued_def)
  from w have "t0 = 1001" and T: "T = done_record ''fast'' 4 1037"
    by (simp_all add: demo_run_ok e)
  with w j k show ?thesis by (simp add: demo_queued_def)
qed

end
